theory Spec2Isabelle
  imports Main
begin

section \<open>Values and errors of the host language\<close>

text \<open>
  The service is a single JavaScript module, \<^verbatim>\<open>src/api/index.js\<close>. A request body
  reaches the route handlers as whatever the body-parsing middleware left in
  \<^verbatim>\<open>req.body\<close>: a string (\<^verbatim>\<open>express.text\<close>), an object or an array
  (\<^verbatim>\<open>express.json\<close>), or nothing at all. The handlers and \<^verbatim>\<open>processHtml\<close>
  test that value with \<^verbatim>\<open>!htmlContent\<close>, so the model keeps every kind of
  JavaScript value that the test distinguishes.
\<close>

datatype js_value =
    JUndefined
  | JNull
  | JBool bool
  | JNumber int
  | JString string
  | JArray "js_value list"
  | JObject "(string \<times> js_value) list"

text \<open>JavaScript truthiness: \<^verbatim>\<open>!v\<close> holds exactly for the falsy values.\<close>

fun falsy :: "js_value \<Rightarrow> bool" where
  "falsy JUndefined = True"
| "falsy JNull = True"
| "falsy (JBool b) = (\<not> b)"
| "falsy (JNumber n) = (n = 0)"
| "falsy (JString s) = (s = [])"
| "falsy (JArray xs) = False"
| "falsy (JObject kvs) = False"

text \<open>
  A thrown \<^verbatim>\<open>Error\<close>: its \<^verbatim>\<open>message\<close>, and the \<^verbatim>\<open>code\<close> that file-system
  errors carry (\<^verbatim>\<open>err.code === 'ENOENT'\<close> is tested by the template routes).
\<close>

record js_error =
  code :: "string option"
  message :: string

definition new_Error :: "string \<Rightarrow> js_error" where
  "new_Error msg = \<lparr>code = None, message = msg\<rparr>"

section \<open>The document as the DOM facility presents it\<close>

text \<open>
  \<^verbatim>\<open>processHtml\<close> touches the parsed document only through attribute selectors and
  \<^verbatim>\<open>.attr\<close>. The document is therefore modelled as the store of its elements in
  document order; an element is addressed by its position, which plays the role of the
  object reference that \<^verbatim>\<open>.each\<close> hands to its callback. Text nodes and nesting are
  never read or written by the code and are left out. \<^verbatim>\<open>attribs\<close> keeps the
  attribute names in insertion order, one entry per name, as the parser's attribute
  object does.
\<close>

record element =
  tagName :: string
  attribs :: "(string \<times> string) list"

type_synonym dom = "element list"

text \<open>\<^verbatim>\<open>$el.attr(name)\<close>: the value, or \<^verbatim>\<open>undefined\<close> (here \<open>None\<close>).\<close>

definition attr :: "element \<Rightarrow> string \<Rightarrow> string option" where
  "attr el name = map_of (attribs el) name"

text \<open>
  Assigning a property of the attribute object: an existing name keeps its place, a new
  one is appended.
\<close>

fun assign :: "string \<Rightarrow> string \<Rightarrow> (string \<times> string) list \<Rightarrow> (string \<times> string) list" where
  "assign name v [] = [(name, v)]"
| "assign name v ((n, w) # rest) =
     (if n = name then (name, v) # rest else (n, w) # assign name v rest)"

text \<open>\<^verbatim>\<open>$el.attr(name, value)\<close>.\<close>

definition set_attr :: "string \<Rightarrow> string \<Rightarrow> element \<Rightarrow> element" where
  "set_attr name v el = el\<lparr>attribs := assign name v (attribs el)\<rparr>"

text \<open>
  The test \<^verbatim>\<open>if ($ref.attr("href"))\<close>: an attribute value is truthy when it is
  present and not the empty string.
\<close>

definition truthy_attr :: "string option \<Rightarrow> bool" where
  "truthy_attr v = (case v of None \<Rightarrow> False | Some s \<Rightarrow> s \<noteq> [])"

text \<open>How a template literal renders an attribute value that may be \<^verbatim>\<open>undefined\<close>.\<close>

definition interpolate :: "string option \<Rightarrow> string" where
  "interpolate v = (case v of None \<Rightarrow> ''undefined'' | Some s \<Rightarrow> s)"

section \<open>The external capabilities\<close>

text \<open>
  The CSS inliner (\<^verbatim>\<open>juice\<close>), the HTML parser and serialiser (\<^verbatim>\<open>cheerio\<close>), the
  selector engine behind \<^verbatim>\<open>$(...)\<close>, the identifier generator (\<^verbatim>\<open>uuid\<close>) and the
  file system are libraries, not code of this repository. They are parameters of the
  model, collected in one record:
  \<^item> \<open>juice\<close> is the call \<^verbatim>\<open>juice(htmlContent, options)\<close>, which returns the inlined
    text or throws;
  \<^item> \<open>cheerio_load\<close> and \<open>cheerio_html\<close> are \<^verbatim>\<open>load(html)\<close> and \<^verbatim>\<open>$.html()\<close>;
  \<^item> \<open>uuidv4 n\<close> is the value of the \<open>n\<close>-th call of \<^verbatim>\<open>uuidv4()\<close> made during one
    invocation of \<^verbatim>\<open>processHtml\<close>;
  \<^item> \<open>css_select\<close> is the selector engine on selector strings whose meaning the model
    does not fix (see \<open>find_refs\<close> below);
  \<^item> \<open>readFile\<close> is the outcome of reading \<^verbatim>\<open>template.html\<close>.
\<close>

record juice_options =
  applyStyleTags :: bool
  removeStyleTags :: bool
  preserveMediaQueries :: bool

record env =
  juice :: "js_value \<Rightarrow> juice_options \<Rightarrow> js_error + string"
  cheerio_load :: "string \<Rightarrow> dom"
  cheerio_html :: "dom \<Rightarrow> string"
  uuidv4 :: "nat \<Rightarrow> string"
  css_select :: "string \<Rightarrow> dom \<Rightarrow> js_error + nat list"
  readFile :: "js_error + string"

section \<open>Identifier remapping (\<^verbatim>\<open>processHtml\<close>, step 2)\<close>

text \<open>
  The selector \<^verbatim>\<open>[id^="i"]\<close>: the element has an id attribute whose value begins
  with the character \<^verbatim>\<open>i\<close>. Attribute values are compared case-sensitively.
\<close>

definition id_starts_with_i :: "element \<Rightarrow> bool" where
  "id_starts_with_i el =
     (case attr el ''id'' of None \<Rightarrow> False | Some v \<Rightarrow> take 1 v = ''i'')"

text \<open>The elements selected by \<^verbatim>\<open>$('[id^="i"]')\<close>, in document order.\<close>

definition select_auto_ids :: "dom \<Rightarrow> nat list" where
  "select_auto_ids d = filter (\<lambda>k. id_starts_with_i (d ! k)) [0..<length d]"

text \<open>
  The reference query is the selector string built by the template literal
  \<^verbatim>\<open>`[href="#${oldId}"], [for="${oldId}"]`\<close>.
\<close>

definition ref_selector :: "string \<Rightarrow> string" where
  \<open>ref_selector oldId = ''[href="#'' @ oldId @ ''"], [for="'' @ oldId @ ''"]''\<close>

text \<open>
  Inside the double quotes of an attribute selector the engine reads up to the next
  double quote and resolves backslash escapes, and a CSS string must not contain a line
  break. The interpolated identifier is therefore the compared value exactly when it
  contains none of these characters; the string then means ``href equals
  \<^verbatim>\<open>#oldId\<close>, or for equals \<^verbatim>\<open>oldId\<close>''. With one of them in the identifier
  the string is some other selector, or none, and what happens is the engine's
  business: the model passes the string to \<open>css_select\<close> and keeps the positions it
  returns that exist in the document.
\<close>

definition plain_value :: "string \<Rightarrow> bool" where
  "plain_value s =
     (CHR 0x22 \<notin> set s \<and> CHR 0x5C \<notin> set s \<and>
      CHR 0x0A \<notin> set s \<and> CHR 0x0D \<notin> set s \<and> CHR 0x0C \<notin> set s)"

definition ref_matches :: "string \<Rightarrow> element \<Rightarrow> bool" where
  "ref_matches oldId el =
     (attr el ''href'' = Some (''#'' @ oldId) \<or> attr el ''for'' = Some oldId)"

definition find_refs :: "env \<Rightarrow> string \<Rightarrow> dom \<Rightarrow> js_error + nat list" where
  "find_refs e oldId d =
     (if plain_value oldId
      then Inr (filter (\<lambda>k. ref_matches oldId (d ! k)) [0..<length d])
      else (case css_select e (ref_selector oldId) d of
              Inl err \<Rightarrow> Inl err
            | Inr ks \<Rightarrow> Inr (filter (\<lambda>k. k < length d) ks)))"

text \<open>
  The inner callback (source lines 58 to 60): each of the two attributes is overwritten
  when the element has a truthy value for it.
\<close>

definition update_ref :: "string \<Rightarrow> element \<Rightarrow> element" where
  "update_ref newId ref =
     (let r1 = (if truthy_attr (attr ref ''href'')
                then set_attr ''href'' (''#'' @ newId) ref else ref)
      in if truthy_attr (attr r1 ''for'') then set_attr ''for'' newId r1 else r1)"

fun update_refs :: "string \<Rightarrow> nat list \<Rightarrow> dom \<Rightarrow> dom" where
  "update_refs newId [] d = d"
| "update_refs newId (r # rs) d = update_refs newId rs (d[r := update_ref newId (d ! r)])"

text \<open>
  The outer callback (source lines 51 to 61) on the element at position \<open>k\<close>, with
  \<open>n\<close> the number of identifiers drawn so far.
\<close>

definition remap_element :: "env \<Rightarrow> nat \<Rightarrow> nat \<Rightarrow> dom \<Rightarrow> js_error + dom" where
  "remap_element e n k d =
     (let oldId = interpolate (attr (d ! k) ''id'');
          newId = ''id-'' @ uuidv4 e n;
          d1 = d[k := set_attr ''id'' newId (d ! k)]
      in case find_refs e oldId d1 of
           Inl err \<Rightarrow> Inl err
         | Inr refs \<Rightarrow> Inr (update_refs newId refs d1))"

text \<open>\<^verbatim>\<open>.each\<close> over the selected elements; an exception ends the loop.\<close>

fun each_remap :: "env \<Rightarrow> nat \<Rightarrow> nat list \<Rightarrow> dom \<Rightarrow> js_error + dom" where
  "each_remap e n [] d = Inr d"
| "each_remap e n (k # ks) d =
     (case remap_element e n k d of
        Inl err \<Rightarrow> Inl err
      | Inr d' \<Rightarrow> each_remap e (Suc n) ks d')"

definition remapIds :: "env \<Rightarrow> dom \<Rightarrow> js_error + dom" where
  "remapIds e d = each_remap e 0 (select_auto_ids d) d"

section \<open>The transform pipeline\<close>

definition juice_opts :: juice_options where
  "juice_opts = \<lparr>applyStyleTags = True, removeStyleTags = True, preserveMediaQueries = True\<rparr>"

definition processHtml :: "env \<Rightarrow> js_value \<Rightarrow> js_error + string" where
  "processHtml e htmlContent =
     (if falsy htmlContent then Inl (new_Error ''HTML content is required'')
      else case juice e htmlContent juice_opts of
             Inl err \<Rightarrow> Inl err
           | Inr html \<Rightarrow>
               (case remapIds e (cheerio_load e html) of
                  Inl err \<Rightarrow> Inl err
                | Inr d \<Rightarrow> Inr (cheerio_html e d)))"

section \<open>The HTTP surface\<close>

text \<open>
  A request as the application's own middleware and routes see it, after
  \<^verbatim>\<open>express.text\<close> and \<^verbatim>\<open>express.json\<close> have run: \<open>headers\<close> holds the
  lower-cased header names of \<^verbatim>\<open>req.headers\<close>, \<open>body\<close> is \<^verbatim>\<open>req.body\<close>, and
  \<open>parse_failure\<close> is the error a body parser passed to \<^verbatim>\<open>next\<close> (malformed
  JSON, a payload over the 50 MB limit), if any. \<open>path\<close> is the request path in the
  form in which the router compares it with a route: the router ignores the case of the
  letters and a trailing slash, so \<^verbatim>\<open>/PROCESS/\<close> arrives here as \<^verbatim>\<open>/process\<close>.
\<close>

record request =
  req_method :: string
  path :: string
  headers :: "(string \<times> string) list"
  parse_failure :: "js_error option"
  body :: js_value

text \<open>
  A response: the status, the headers the application sets itself, and what was sent.
  Headers that the framework derives from the kind of body (content type and length of
  \<^verbatim>\<open>res.json\<close> and \<^verbatim>\<open>res.send\<close>) are not modelled; the constructor of the body
  records the kind. \<open>DefaultPage\<close> is the framework's own answer when no route matches.
\<close>

datatype sent = NoBody | Text string | Json js_value | DefaultPage

record response =
  statusCode :: nat
  res_headers :: "(string \<times> string) list"
  sent_body :: sent

definition res0 :: response where
  "res0 = \<lparr>statusCode = 200, res_headers = [], sent_body = NoBody\<rparr>"

definition res_header :: "string \<Rightarrow> string \<Rightarrow> response \<Rightarrow> response" where
  "res_header name v res = res\<lparr>res_headers := assign name v (res_headers res)\<rparr>"

definition res_status :: "nat \<Rightarrow> response \<Rightarrow> response" where
  "res_status c res = res\<lparr>statusCode := c\<rparr>"

definition res_send :: "string \<Rightarrow> response \<Rightarrow> response" where
  "res_send s res = res\<lparr>sent_body := Text s\<rparr>"

definition res_json :: "js_value \<Rightarrow> response \<Rightarrow> response" where
  "res_json v res = res\<lparr>sent_body := Json v\<rparr>"

text \<open>\<^verbatim>\<open>res.type("html")\<close> sets the content type of that extension.\<close>

definition res_type :: "string \<Rightarrow> response \<Rightarrow> response" where
  "res_type t res =
     res_header ''Content-Type''
       (if t = ''html'' then ''text/html; charset=utf-8'' else t) res"

text \<open>
  \<^verbatim>\<open>res.sendStatus(code)\<close> sets the status and sends the status message of that code
  as the text of the response. The source calls it with 200 only.
\<close>

definition status_message :: "nat \<Rightarrow> string" where
  "status_message c =
     (if c = 200 then ''OK'' else if c = 400 then ''Bad Request''
      else if c = 404 then ''Not Found'' else if c = 500 then ''Internal Server Error''
      else [])"

definition res_sendStatus :: "nat \<Rightarrow> response \<Rightarrow> response" where
  "res_sendStatus c res = res_send (status_message c) (res_status c res)"

text \<open>The CORS middleware (source lines 21 to 30); \<open>next\<close> is the rest of the stack.\<close>

definition cors :: "request \<Rightarrow> response \<Rightarrow> (response \<Rightarrow> response) \<Rightarrow> response" where
  "cors req res next =
     (let res1 = res_header ''Access-Control-Allow-Origin'' ''*'' res;
          res2 = res_header ''Access-Control-Allow-Methods''
                   ''GET, POST, PUT, DELETE, OPTIONS'' res1;
          res3 = res_header ''Access-Control-Allow-Headers''
                   ''Origin, X-Requested-With, Content-Type, Accept, Authorization, X-Filename''
                   res2
      in if req_method req = ''OPTIONS'' then res_sendStatus 200 res3 else next res3)"

text \<open>\<^verbatim>\<open>req.headers['x-filename'] || 'newsletter.html'\<close>.\<close>

definition filename_of :: "request \<Rightarrow> string" where
  "filename_of req =
     (case map_of (headers req) ''x-filename'' of
        None \<Rightarrow> ''newsletter.html''
      | Some v \<Rightarrow> if v = [] then ''newsletter.html'' else v)"

text \<open>
  The template routes. Their \<^verbatim>\<open>catch\<close> block answers 404 for an error whose code
  is \<^verbatim>\<open>ENOENT\<close> and hands every other error on with \<^verbatim>\<open>next(err)\<close>, which is the
  \<open>Inl\<close> result here.
\<close>

definition get_root :: "env \<Rightarrow> response \<Rightarrow> js_error + response" where
  "get_root e res =
     (let catch = (\<lambda>err.
            if code err = Some ''ENOENT''
            then Inr (res_json (JObject
                   [(''error'', JString ''Template file not found''),
                    (''message'', JString ''Use POST /process endpoint to process HTML content via API'')])
                   (res_status 404 res))
            else Inl err)
      in case readFile e of
           Inl err \<Rightarrow> catch err
         | Inr htmlContent \<Rightarrow>
             (case processHtml e (JString htmlContent) of
                Inl err \<Rightarrow> catch err
              | Inr html \<Rightarrow> Inr (res_send html (res_type ''html'' res))))"

definition get_download :: "env \<Rightarrow> response \<Rightarrow> js_error + response" where
  \<open>get_download e res =
     (let catch = (\<lambda>err.
            if code err = Some ''ENOENT''
            then Inr (res_json (JObject
                   [(''error'', JString ''Template file not found''),
                    (''message'', JString ''Use POST /process-download endpoint to process HTML content via API'')])
                   (res_status 404 res))
            else Inl err)
      in case readFile e of
           Inl err \<Rightarrow> catch err
         | Inr htmlContent \<Rightarrow>
             (case processHtml e (JString htmlContent) of
                Inl err \<Rightarrow> catch err
              | Inr html \<Rightarrow>
                  Inr (res_send html
                        (res_header ''Content-Disposition'' ''attachment; filename="newsletter.html"''
                          (res_header ''Content-Type'' ''text/html; charset=UTF-8'' res)))))\<close>

text \<open>The JSON body of the \<^verbatim>\<open>catch\<close> block shared by the two POST routes.\<close>

definition failure_json :: "js_error \<Rightarrow> js_value" where
  "failure_json err =
     JObject [(''success'', JBool False),
              (''error'', JString ''Failed to process HTML''),
              (''message'', JString (message err))]"

text \<open>\<^verbatim>\<open>POST /process\<close> (source lines 111 to 135).\<close>

definition post_process :: "env \<Rightarrow> request \<Rightarrow> response \<Rightarrow> response" where
  "post_process e req res =
     (let htmlContent = body req;
          filename = filename_of req
      in if falsy htmlContent
         then res_json (JObject [(''error'', JString ''No HTML content provided'')])
                (res_status 400 res)
         else case processHtml e htmlContent of
                Inr processedHtml \<Rightarrow>
                  res_json (JObject [(''success'', JBool True),
                                     (''html'', JString processedHtml),
                                     (''filename'', JString filename)]) res
              | Inl err \<Rightarrow> res_json (failure_json err) (res_status 500 res))"

text \<open>\<^verbatim>\<open>POST /process-download\<close> (source lines 138 to 162).\<close>

definition post_process_download :: "env \<Rightarrow> request \<Rightarrow> response \<Rightarrow> response" where
  \<open>post_process_download e req res =
     (let htmlContent = body req;
          filename = filename_of req
      in if falsy htmlContent
         then res_json (JObject [(''error'', JString ''No HTML content provided'')])
                (res_status 400 res)
         else case processHtml e htmlContent of
                Inr processedHtml \<Rightarrow>
                  res_send processedHtml
                    (res_header ''Content-Disposition''
                       (''attachment; filename="'' @ filename @ ''"'')
                       (res_header ''Content-Type'' ''text/html; charset=UTF-8'' res))
              | Inl err \<Rightarrow> res_json (failure_json err) (res_status 500 res))\<close>

text \<open>The error-handling middleware (source lines 165 to 168).\<close>

definition error_handler :: "js_error \<Rightarrow> response \<Rightarrow> response" where
  "error_handler err res = res_send ''Internal Server Error'' (res_status 500 res)"

text \<open>
  Route dispatch in registration order. The framework serves \<^verbatim>\<open>HEAD\<close> through the
  \<^verbatim>\<open>GET\<close> routes and answers 404 itself when nothing matches.
\<close>

definition routes :: "env \<Rightarrow> request \<Rightarrow> response \<Rightarrow> js_error + response" where
  "routes e req res =
     (if (req_method req = ''GET'' \<or> req_method req = ''HEAD'') \<and> path req = ''/'' then get_root e res
      else if (req_method req = ''GET'' \<or> req_method req = ''HEAD'') \<and> path req = ''/download''
        then get_download e res
      else if req_method req = ''POST'' \<and> path req = ''/process''
        then Inr (post_process e req res)
      else if req_method req = ''POST'' \<and> path req = ''/process-download''
        then Inr (post_process_download e req res)
      else Inr (res\<lparr>statusCode := 404, sent_body := DefaultPage\<rparr>))"

text \<open>
  The whole stack in the order of the \<^verbatim>\<open>app.use\<close> calls: body parsers, CORS
  middleware, routes, error handler. An error passed to \<^verbatim>\<open>next\<close> skips every
  ordinary middleware and route that follows and reaches the error handler.
\<close>

definition app :: "env \<Rightarrow> request \<Rightarrow> response" where
  "app e req =
     (case parse_failure req of
        Some err \<Rightarrow> error_handler err res0
      | None \<Rightarrow>
          cors req res0
            (\<lambda>res. case routes e req res of
                      Inl err \<Rightarrow> error_handler err res
                    | Inr r \<Rightarrow> r))"

section \<open>Auxiliary notions for the statements\<close>


text \<open>The three headers as the CORS middleware leaves them on a fresh response.\<close>

definition cors_headers :: "(string \<times> string) list" where
  "cors_headers =
     [(''Access-Control-Allow-Origin'', ''*''),
      (''Access-Control-Allow-Methods'', ''GET, POST, PUT, DELETE, OPTIONS''),
      (''Access-Control-Allow-Headers'',
       ''Origin, X-Requested-With, Content-Type, Accept, Authorization, X-Filename'')]"

section \<open>Concrete inputs\<close>

text \<open>
  A small instance of the external capabilities, used to run the model: a serialiser
  that prints the start tags, a parser that knows one document, an inliner that passes
  strings through and throws on anything else, and a generator whose \<open>n\<close>-th value is
  \<open>n + 1\<close> letters long.
\<close>

definition render_attr :: "string \<times> string \<Rightarrow> string" where
  \<open>render_attr nv = '' '' @ fst nv @ ''="'' @ snd nv @ ''"''\<close>

definition render :: "dom \<Rightarrow> string" where
  "render d =
     concat (map (\<lambda>x. ''<'' @ tagName x @ concat (map render_attr (attribs x)) @ ''>'') d)"

definition demo_doc :: dom where
  "demo_doc = [\<lparr>tagName = ''label'', attribs = [(''for'', ''i2'')]\<rparr>,
               \<lparr>tagName = ''div'', attribs = [(''id'', ''i2'')]\<rparr>]"

definition demo_env :: env where
  "demo_env =
     \<lparr>juice = (\<lambda>v opts. case v of
                   JString s \<Rightarrow> Inr s
                 | _ \<Rightarrow> Inl (new_Error ''html.replace is not a function'')),
      cheerio_load = (\<lambda>s. if s = render demo_doc then demo_doc else []),
      cheerio_html = render,
      uuidv4 = (\<lambda>n. replicate (Suc n) CHR ''u''),
      css_select = (\<lambda>s d. Inl (new_Error ''Attribute selector did not terminate'')),
      readFile = Inl \<lparr>code = Some ''ENOENT'', message = ''no such file or directory''\<rparr>\<rparr>"



text \<open>An anchor that carries a link to one remapped element and a label reference to another.\<close>

definition doc_two_refs :: dom where
  "doc_two_refs =
     [\<lparr>tagName = ''div'', attribs = [(''id'', ''i1'')]\<rparr>,
      \<lparr>tagName = ''div'', attribs = [(''id'', ''i2'')]\<rparr>,
      \<lparr>tagName = ''a'', attribs = [(''href'', ''#i2''), (''for'', ''i1'')]\<rparr>]"

text \<open>An anchor that links to a remapped element and refers to an identifier outside the pattern.\<close>

definition doc_mixed_refs :: dom where
  "doc_mixed_refs =
     [\<lparr>tagName = ''div'', attribs = [(''id'', ''i1'')]\<rparr>,
      \<lparr>tagName = ''input'', attribs = [(''id'', ''name'')]\<rparr>,
      \<lparr>tagName = ''a'', attribs = [(''href'', ''#i1''), (''for'', ''name'')]\<rparr>]"






definition options_request :: request where
  "options_request =
     \<lparr>req_method = ''OPTIONS'', path = ''/process'', headers = [],
      parse_failure = None, body = JUndefined\<rparr>"

definition bad_json_request :: request where
  "bad_json_request =
     \<lparr>req_method = ''POST'', path = ''/process'',
      headers = [(''content-type'', ''application/json'')],
      parse_failure = Some \<lparr>code = None, message = ''Unexpected end of JSON input''\<rparr>,
      body = JUndefined\<rparr>"

definition empty_request :: request where
  "empty_request =
     \<lparr>req_method = ''POST'', path = ''/process'',
      headers = [(''content-type'', ''text/html'')],
      parse_failure = None, body = JString []\<rparr>"

definition json_request :: request where
  "json_request =
     \<lparr>req_method = ''POST'', path = ''/process'',
      headers = [(''content-type'', ''application/json'')],
      parse_failure = None, body = JObject [(''a'', JNumber 1)]\<rparr>"

definition json_download_request :: request where
  "json_download_request =
     \<lparr>req_method = ''POST'', path = ''/process-download'',
      headers = [(''content-type'', ''application/json'')],
      parse_failure = None, body = JObject [(''a'', JNumber 1)]\<rparr>"

definition html_download_request :: request where
  "html_download_request =
     \<lparr>req_method = ''POST'', path = ''/process-download'',
      headers = [(''content-type'', ''text/html''), (''x-filename'', ''mail.html'')],
      parse_failure = None, body = JString (render demo_doc)\<rparr>"

section \<open>Attributes under assignment\<close>

lemma map_of_assign:
  "map_of (assign name v xs) m = (if m = name then Some v else map_of xs m)"
  by (induction xs) auto

lemma attr_set_attr:
  "attr (set_attr name v x) m = (if m = name then Some v else attr x m)"
  by (simp add: attr_def set_attr_def map_of_assign)

lemma tagName_set_attr: "tagName (set_attr name v x) = tagName x"
  by (simp add: set_attr_def)

lemma attr_update_ref:
  "m \<noteq> ''href'' \<Longrightarrow> m \<noteq> ''for'' \<Longrightarrow> attr (update_ref newId r) m = attr r m"
  by (simp add: update_ref_def Let_def attr_set_attr)

text \<open>
  An element that carries a non-empty href and a non-empty for loses both to the new
  identifier, whichever of the two made the query select it.
\<close>

lemma update_ref_both:
  "truthy_attr (attr r ''href'') \<Longrightarrow> truthy_attr (attr r ''for'') \<Longrightarrow>
   attr (update_ref newId r) ''href'' = Some (''#'' @ newId) \<and>
   attr (update_ref newId r) ''for'' = Some newId"
  by (simp add: update_ref_def Let_def attr_set_attr)

lemma tagName_update_ref: "tagName (update_ref newId r) = tagName r"
  by (simp add: update_ref_def Let_def tagName_set_attr)

lemma length_update_refs: "length (update_refs newId rs d) = length d"
  by (induction rs arbitrary: d) auto

lemma attr_update_step:
  "m \<noteq> ''href'' \<Longrightarrow> m \<noteq> ''for'' \<Longrightarrow> j < length d \<Longrightarrow>
   attr (d[a := update_ref newId (d ! a)] ! j) m = attr (d ! j) m"
  by (cases "j = a") (simp_all add: attr_update_ref)

lemma attr_update_refs:
  "m \<noteq> ''href'' \<Longrightarrow> m \<noteq> ''for'' \<Longrightarrow> j < length d \<Longrightarrow>
   attr (update_refs newId rs d ! j) m = attr (d ! j) m"
  by (induction rs arbitrary: d) (simp_all add: attr_update_step)

lemma tagName_update_step:
  "j < length d \<Longrightarrow> tagName (d[a := update_ref newId (d ! a)] ! j) = tagName (d ! j)"
  by (cases "j = a") (simp_all add: tagName_update_ref)

lemma tagName_update_refs:
  "j < length d \<Longrightarrow> tagName (update_refs newId rs d ! j) = tagName (d ! j)"
  by (induction rs arbitrary: d) (simp_all add: tagName_update_step)



section \<open>One step of the outer loop\<close>

lemma remap_element_length:
  "remap_element e n k d = Inr d' \<Longrightarrow> length d' = length d"
  by (auto simp: remap_element_def Let_def length_update_refs split: sum.splits)


lemma nth_set_attr_frame:
  assumes "j < length d" and "m \<noteq> name"
  shows "attr (d[k := set_attr name v (d ! k)] ! j) m = attr (d ! j) m"
    and "tagName (d[k := set_attr name v (d ! k)] ! j) = tagName (d ! j)"
  using assms by (cases "j = k"; simp add: attr_set_attr tagName_set_attr)+

lemma remap_element_frame:
  assumes "remap_element e n k d = Inr d'" and "j < length d"
    and "m \<noteq> ''id''" and "m \<noteq> ''href''" and "m \<noteq> ''for''"
  shows "attr (d' ! j) m = attr (d ! j) m" and "tagName (d' ! j) = tagName (d ! j)"
  using assms
  by (auto simp: remap_element_def Let_def attr_update_refs tagName_update_refs
      nth_set_attr_frame split: sum.splits)


section \<open>The outer loop\<close>




text \<open>Tag names and all attributes other than id, href and for pass through the loop.\<close>

lemma each_remap_frame:
  assumes "each_remap e n ks d = Inr d'" and "j < length d"
    and "m \<noteq> ''id''" and "m \<noteq> ''href''" and "m \<noteq> ''for''"
  shows "attr (d' ! j) m = attr (d ! j) m \<and> tagName (d' ! j) = tagName (d ! j)"
  using assms(1,2)
proof (induction ks arbitrary: d n)
  case Nil
  then show ?case by simp
next
  case (Cons k ks)
  from Cons.prems obtain d1 where
    s: "remap_element e n k d = Inr d1" and r: "each_remap e (Suc n) ks d1 = Inr d'"
    by (auto split: sum.splits)
  have l: "length d1 = length d" using s by (rule remap_element_length)
  have "attr (d' ! j) m = attr (d1 ! j) m \<and> tagName (d' ! j) = tagName (d1 ! j)"
    using Cons.IH [OF r] Cons.prems l by simp
  then show ?case
    using remap_element_frame [OF s Cons.prems(2) assms(3,4,5)] by simp
qed


section \<open>Remapping a whole document\<close>








text \<open>
  What the remapping leaves alone: the number and the tag names of the elements and
  every attribute other than id, href and for.
\<close>

lemma remapIds_frame:
  assumes "remapIds e d = Inr d'" and "k < length d"
    and "m \<noteq> ''id''" and "m \<noteq> ''href''" and "m \<noteq> ''for''"
  shows "attr (d' ! k) m = attr (d ! k) m \<and> tagName (d' ! k) = tagName (d ! k)"
  using assms unfolding remapIds_def by (rule each_remap_frame)


section \<open>The pipeline and the routes\<close>

lemma processHtml_falsy:
  "falsy v \<Longrightarrow> processHtml e v = Inl (new_Error ''HTML content is required'')"
  by (simp add: processHtml_def)

lemma processHtml_truthy:
  "\<not> falsy v \<Longrightarrow> processHtml e v =
     (case juice e v juice_opts of
        Inl err \<Rightarrow> Inl err
      | Inr html \<Rightarrow>
          (case remapIds e (cheerio_load e html) of
             Inl err \<Rightarrow> Inl err
           | Inr d \<Rightarrow> Inr (cheerio_html e d)))"
  by (simp add: processHtml_def)

text \<open>A result of the pipeline is the serialisation of a remapped document.\<close>

lemma processHtml_result:
  assumes "processHtml e v = Inr out"
  shows "\<exists>html d'. juice e v juice_opts = Inr html \<and>
           remapIds e (cheerio_load e html) = Inr d' \<and> out = cheerio_html e d'"
  using assms by (auto simp: processHtml_def split: if_splits sum.splits)

lemma cors_res0:
  "cors req res0 next =
     (if req_method req = ''OPTIONS''
      then \<lparr>statusCode = 200, res_headers = cors_headers, sent_body = Text ''OK''\<rparr>
      else next \<lparr>statusCode = 200, res_headers = cors_headers, sent_body = NoBody\<rparr>)"
  by (simp add: cors_def res0_def res_header_def res_sendStatus_def res_send_def res_status_def
      status_message_def cors_headers_def Let_def)

lemma headers_get_root:
  "get_root e res = Inr r \<Longrightarrow> m \<noteq> ''Content-Type'' \<Longrightarrow>
   map_of (res_headers r) m = map_of (res_headers res) m"
  by (auto simp: get_root_def Let_def res_json_def res_status_def res_send_def res_type_def
      res_header_def map_of_assign split: sum.splits if_splits)

lemma headers_get_download:
  "get_download e res = Inr r \<Longrightarrow> m \<noteq> ''Content-Type'' \<Longrightarrow> m \<noteq> ''Content-Disposition'' \<Longrightarrow>
   map_of (res_headers r) m = map_of (res_headers res) m"
  by (auto simp: get_download_def Let_def res_json_def res_status_def res_send_def
      res_header_def map_of_assign split: sum.splits if_splits)

lemma headers_post_process:
  "res_headers (post_process e req res) = res_headers res"
  by (simp add: post_process_def Let_def res_json_def res_status_def split: sum.splits)

lemma headers_post_process_download:
  "m \<noteq> ''Content-Type'' \<Longrightarrow> m \<noteq> ''Content-Disposition'' \<Longrightarrow>
   map_of (res_headers (post_process_download e req res)) m = map_of (res_headers res) m"
  by (simp add: post_process_download_def Let_def res_json_def res_status_def res_send_def
      res_header_def map_of_assign split: sum.splits)

lemma headers_routes:
  assumes "m \<noteq> ''Content-Type''" and "m \<noteq> ''Content-Disposition''"
  shows "map_of (res_headers (case routes e req res of
                                Inl err \<Rightarrow> error_handler err res | Inr r \<Rightarrow> r)) m
         = map_of (res_headers res) m"
proof (cases "routes e req res")
  case (Inl err)
  then show ?thesis by (simp add: error_handler_def res_send_def res_status_def)
next
  case (Inr r)
  then show ?thesis
    using assms headers_get_root [of e res r m] headers_get_download [of e res r m]
      headers_post_process [of e req res] headers_post_process_download [of m e req res]
    by (auto simp: routes_def split: if_splits)
qed

lemma app_post_process:
  assumes "parse_failure req = None" and "req_method req = ''POST''" and "path req = ''/process''"
  shows "app e req =
           post_process e req
             \<lparr>statusCode = 200, res_headers = cors_headers, sent_body = NoBody\<rparr>"
  using assms by (simp add: app_def cors_res0 routes_def)

lemma app_post_process_download:
  assumes "parse_failure req = None" and "req_method req = ''POST''"
    and "path req = ''/process-download''"
  shows "app e req =
           post_process_download e req
             \<lparr>statusCode = 200, res_headers = cors_headers, sent_body = NoBody\<rparr>"
  using assms by (simp add: app_def cors_res0 routes_def)

section \<open>Reference rewriting\<close>

text \<open>
  Claim C1: every href attribute equal to \<^verbatim>\<open>#oldId\<close> and every for attribute equal
  to \<^verbatim>\<open>oldId\<close> is rewritten to the new identifier of the element that carried
  \<^verbatim>\<open>oldId\<close>. The run below is the document \<open>doc_two_refs\<close>, whose anchor links to
  \<^verbatim>\<open>i2\<close> and names \<^verbatim>\<open>i1\<close> in its for attribute. The round for \<^verbatim>\<open>i1\<close> selects
  the anchor through its for attribute and, the href being non-empty, overwrites the
  href as well: the link that pointed to \<^verbatim>\<open>i2\<close> ends as a link to the new identifier
  of \<^verbatim>\<open>i1\<close> (the first value drawn), while \<^verbatim>\<open>i2\<close> itself receives the second.
\<close>

theorem remapIds_redirects_link:
  "remapIds e doc_two_refs =
     Inr [\<lparr>tagName = ''div'', attribs = [(''id'', ''id-'' @ uuidv4 e 0)]\<rparr>,
          \<lparr>tagName = ''div'', attribs = [(''id'', ''id-'' @ uuidv4 e 1)]\<rparr>,
          \<lparr>tagName = ''a'', attribs = [(''href'', ''#id-'' @ uuidv4 e 0),
                                       (''for'', ''id-'' @ uuidv4 e 0)]\<rparr>]"
  by (simp add: doc_two_refs_def remapIds_def select_auto_ids_def id_starts_with_i_def attr_def
      remap_element_def find_refs_def plain_value_def interpolate_def ref_matches_def Let_def
      set_attr_def update_ref_def truthy_attr_def)

text \<open>
  Claim C2: identifiers outside the pattern and the references to them are left
  untouched; in particular a for attribute that names such an identifier, on an element
  whose href is \<^verbatim>\<open>#oldId\<close>, is unchanged. The run below is the document
  \<open>doc_mixed_refs\<close>: its anchor links to \<^verbatim>\<open>i1\<close> and names \<^verbatim>\<open>name\<close>, an
  identifier that is not remapped. The anchor is selected through its href, and its for
  attribute, being non-empty, is overwritten with the new identifier of \<^verbatim>\<open>i1\<close>.
\<close>

theorem remapIds_overwrites_foreign_for:
  "remapIds e doc_mixed_refs =
     Inr [\<lparr>tagName = ''div'', attribs = [(''id'', ''id-'' @ uuidv4 e 0)]\<rparr>,
          \<lparr>tagName = ''input'', attribs = [(''id'', ''name'')]\<rparr>,
          \<lparr>tagName = ''a'', attribs = [(''href'', ''#id-'' @ uuidv4 e 0),
                                       (''for'', ''id-'' @ uuidv4 e 0)]\<rparr>]"
  by (simp add: doc_mixed_refs_def remapIds_def select_auto_ids_def id_starts_with_i_def
      attr_def remap_element_def find_refs_def plain_value_def interpolate_def ref_matches_def
      Let_def set_attr_def update_ref_def truthy_attr_def)

section \<open>Empty bodies\<close>

text \<open>
  Claim C4: a \<^verbatim>\<open>POST /process\<close> request whose body is falsy (the empty string,
  \<^verbatim>\<open>null\<close>, or no body at all) is answered with status 400 and the JSON body
  \<^verbatim>\<open>{error: "No HTML content provided"}\<close>, and the pipeline itself rejects such a
  value with the error ``HTML content is required'' whatever the libraries would do,
  that is, before the inliner or the parser is consulted. For every other body the
  request is not answered with 400: the body is handed to the inliner and the response
  is the one that the outcome of the pipeline determines.
\<close>

theorem post_process_empty_body:
  assumes "parse_failure req = None" and "req_method req = ''POST''" and "path req = ''/process''"
  shows "(falsy (body req) \<longrightarrow>
            statusCode (app e req) = 400 \<and>
            sent_body (app e req) =
              Json (JObject [(''error'', JString ''No HTML content provided'')]) \<and>
            processHtml e (body req) = Inl (new_Error ''HTML content is required'')) \<and>
         (\<not> falsy (body req) \<longrightarrow>
            statusCode (app e req) \<noteq> 400 \<and>
            processHtml e (body req) =
              (case juice e (body req) juice_opts of
                 Inl err \<Rightarrow> Inl err
               | Inr html \<Rightarrow>
                   (case remapIds e (cheerio_load e html) of
                      Inl err \<Rightarrow> Inl err
                    | Inr d \<Rightarrow> Inr (cheerio_html e d))) \<and>
            (\<forall>h. processHtml e (body req) = Inr h \<longrightarrow>
               statusCode (app e req) = 200 \<and>
               sent_body (app e req) =
                 Json (JObject [(''success'', JBool True), (''html'', JString h),
                                (''filename'', JString (filename_of req))])) \<and>
            (\<forall>err. processHtml e (body req) = Inl err \<longrightarrow>
               statusCode (app e req) = 500 \<and>
               sent_body (app e req) = Json (failure_json err)))"
proof (cases "falsy (body req)")
  case True
  then show ?thesis
    using processHtml_falsy [OF True, of e]
    by (simp add: app_post_process [OF assms] post_process_def res_json_def res_status_def)
next
  case False
  have "statusCode (app e req) \<noteq> 400 \<and>
        (\<forall>h. processHtml e (body req) = Inr h \<longrightarrow>
               statusCode (app e req) = 200 \<and>
               sent_body (app e req) =
                 Json (JObject [(''success'', JBool True), (''html'', JString h),
                                (''filename'', JString (filename_of req))])) \<and>
        (\<forall>err. processHtml e (body req) = Inl err \<longrightarrow>
               statusCode (app e req) = 500 \<and>
               sent_body (app e req) = Json (failure_json err))"
    using False
    by (cases "processHtml e (body req)")
       (simp_all add: app_post_process [OF assms] post_process_def res_json_def res_status_def)
  then show ?thesis using False processHtml_truthy [OF False, of e] by simp
qed

theorem post_process_empty_body_witness:
  "parse_failure empty_request = None \<and> req_method empty_request = ''POST'' \<and>
   path empty_request = ''/process'' \<and> falsy (body empty_request) \<and>
   statusCode (app demo_env empty_request) = 400 \<and>
   sent_body (app demo_env empty_request) =
     Json (JObject [(''error'', JString ''No HTML content provided'')]) \<and>
   processHtml demo_env (body empty_request) = Inl (new_Error ''HTML content is required'') \<and>
   \<not> falsy (body json_request) \<and> statusCode (app demo_env json_request) = 500"
proof -
  have h: "parse_failure empty_request = None" "req_method empty_request = ''POST''"
    "path empty_request = ''/process''"
    by (simp_all add: empty_request_def)
  have f: "falsy (body empty_request)" by (simp add: empty_request_def)
  have h': "parse_failure json_request = None" "req_method json_request = ''POST''"
    "path json_request = ''/process''"
    by (simp_all add: json_request_def)
  have t: "\<not> falsy (body json_request)" by (simp add: json_request_def)
  have p: "processHtml demo_env (body json_request)
             = Inl (new_Error ''html.replace is not a function'')"
    by (simp add: processHtml_def json_request_def demo_env_def)
  show ?thesis
    using h f h' t p post_process_empty_body [OF h, of demo_env]
      post_process_empty_body [OF h', of demo_env]
    by simp
qed

section \<open>Failures of the pipeline\<close>

text \<open>
  Claim C5: when the pipeline raises an error while a \<^verbatim>\<open>POST /process\<close> or
  \<^verbatim>\<open>POST /process-download\<close> request is processed, the response has status 500 and
  a JSON body with \<^verbatim>\<open>success: false\<close>, the label ``Failed to process HTML'' and the
  message of the error, and nothing of the document; when the pipeline returns, the
  response has status 200 and carries its whole result, as the \<^verbatim>\<open>html\<close> field of a
  JSON body or as the text of the download. No response carries both.
\<close>

theorem processing_failure_response:
  assumes "parse_failure req = None" and "req_method req = ''POST''"
    and "path req = ''/process'' \<or> path req = ''/process-download''"
    and "\<not> falsy (body req)"
  shows "(\<forall>err. processHtml e (body req) = Inl err \<longrightarrow>
            statusCode (app e req) = 500 \<and>
            sent_body (app e req) =
              Json (JObject [(''success'', JBool False),
                             (''error'', JString ''Failed to process HTML''),
                             (''message'', JString (message err))])) \<and>
         (\<forall>h. processHtml e (body req) = Inr h \<longrightarrow>
            statusCode (app e req) = 200 \<and>
            sent_body (app e req) =
              (if path req = ''/process''
               then Json (JObject [(''success'', JBool True), (''html'', JString h),
                                   (''filename'', JString (filename_of req))])
               else Text h))"
proof (cases "path req = ''/process''")
  case True
  show ?thesis
    using assms(4) True
    by (cases "processHtml e (body req)")
       (simp_all add: app_post_process [OF assms(1,2) True] post_process_def res_json_def
          res_status_def failure_json_def)
next
  case False
  then have p: "path req = ''/process-download''" using assms(3) by simp
  show ?thesis
    using assms(4) False
    by (cases "processHtml e (body req)")
       (simp_all add: app_post_process_download [OF assms(1,2) p] post_process_download_def
          res_json_def res_status_def res_send_def res_header_def failure_json_def)
qed

theorem processing_failure_response_witness:
  "parse_failure json_request = None \<and> req_method json_request = ''POST'' \<and>
   path json_request = ''/process'' \<and> \<not> falsy (body json_request) \<and>
   processHtml demo_env (body json_request)
     = Inl (new_Error ''html.replace is not a function'') \<and>
   statusCode (app demo_env json_request) = 500 \<and>
   sent_body (app demo_env json_request) =
     Json (JObject [(''success'', JBool False),
                    (''error'', JString ''Failed to process HTML''),
                    (''message'', JString ''html.replace is not a function'')]) \<and>
   path html_download_request = ''/process-download'' \<and>
   \<not> falsy (body html_download_request) \<and>
   statusCode (app demo_env html_download_request) = 200 \<and>
   sent_body (app demo_env html_download_request) =
     Text (render [\<lparr>tagName = ''label'', attribs = [(''for'', ''id-u'')]\<rparr>,
                   \<lparr>tagName = ''div'', attribs = [(''id'', ''id-u'')]\<rparr>])"
proof -
  have h: "parse_failure json_request = None" "req_method json_request = ''POST''"
    "path json_request = ''/process'' \<or> path json_request = ''/process-download''"
    "\<not> falsy (body json_request)"
    by (simp_all add: json_request_def)
  have p: "processHtml demo_env (body json_request)
             = Inl (new_Error ''html.replace is not a function'')"
    by (simp add: processHtml_def json_request_def demo_env_def)
  have h': "parse_failure html_download_request = None" "req_method html_download_request = ''POST''"
    "path html_download_request = ''/process'' \<or>
     path html_download_request = ''/process-download''"
    "\<not> falsy (body html_download_request)"
    by (simp_all add: html_download_request_def render_def demo_doc_def)
  have q: "path html_download_request = ''/process-download''"
    by (simp add: html_download_request_def)
  have r: "processHtml demo_env (JString (render demo_doc))
             = Inr (render [\<lparr>tagName = ''label'', attribs = [(''for'', ''id-u'')]\<rparr>,
                            \<lparr>tagName = ''div'', attribs = [(''id'', ''id-u'')]\<rparr>])"
    by code_simp
  then have r': "processHtml demo_env (body html_download_request)
             = Inr (render [\<lparr>tagName = ''label'', attribs = [(''for'', ''id-u'')]\<rparr>,
                            \<lparr>tagName = ''div'', attribs = [(''id'', ''id-u'')]\<rparr>])"
    by (simp add: html_download_request_def)
  have m: "message (new_Error ''html.replace is not a function'')
             = ''html.replace is not a function''"
    by (simp add: new_Error_def)
  show ?thesis
    using h(1,2,4) h'(4) p q r' m
      processing_failure_response [OF h, of demo_env]
      processing_failure_response [OF h', of demo_env]
    by (simp add: json_request_def)
qed

section \<open>New identifiers\<close>




section \<open>Cross-origin headers\<close>

text \<open>
  Claim C7, as amended: for every request whose body the parsing middleware accepted,
  the response carries \<^verbatim>\<open>Access-Control-Allow-Origin: *\<close>, the allowed methods
  \<^verbatim>\<open>GET, POST, PUT, DELETE, OPTIONS\<close> and the allowed headers, \<^verbatim>\<open>X-Filename\<close>
  among them; and when the method of such a request is \<^verbatim>\<open>OPTIONS\<close>, the response
  is status 200 with exactly these headers and the text \<^verbatim>\<open>OK\<close>, whatever the path,
  the body and the environment are, so no route handler has run.
\<close>

theorem cors_on_parsed_requests:
  assumes "parse_failure req = None"
  shows "map_of (res_headers (app e req)) ''Access-Control-Allow-Origin'' = Some ''*'' \<and>
         map_of (res_headers (app e req)) ''Access-Control-Allow-Methods''
           = Some ''GET, POST, PUT, DELETE, OPTIONS'' \<and>
         map_of (res_headers (app e req)) ''Access-Control-Allow-Headers''
           = Some ''Origin, X-Requested-With, Content-Type, Accept, Authorization, X-Filename'' \<and>
         (req_method req = ''OPTIONS'' \<longrightarrow>
            app e req =
              \<lparr>statusCode = 200, res_headers = cors_headers, sent_body = Text ''OK''\<rparr>)"
proof (cases "req_method req = ''OPTIONS''")
  case True
  then show ?thesis using assms by (simp add: app_def cors_res0 cors_headers_def)
next
  case False
  then show ?thesis using assms
    by (simp add: app_def cors_res0 headers_routes) (simp add: cors_headers_def)
qed

theorem cors_on_parsed_requests_witness:
  "parse_failure options_request = None \<and> req_method options_request = ''OPTIONS'' \<and>
   app demo_env options_request =
     \<lparr>statusCode = 200, res_headers = cors_headers, sent_body = Text ''OK''\<rparr> \<and>
   map_of (res_headers (app demo_env options_request)) ''Access-Control-Allow-Origin''
     = Some ''*''"
proof -
  have h: "parse_failure options_request = None" by (simp add: options_request_def)
  have m: "req_method options_request = ''OPTIONS''" by (simp add: options_request_def)
  show ?thesis
    using h m cors_on_parsed_requests [OF h, of demo_env] by (simp add: cors_headers_def)
qed

text \<open>
  The claim as it was stated fails in two places. An \<^verbatim>\<open>OPTIONS\<close> request is
  answered through \<^verbatim>\<open>res.sendStatus(200)\<close>, which sends the text \<^verbatim>\<open>OK\<close>, so the
  response has a body. And a request whose body the JSON parser rejects never reaches
  the CORS middleware, which is registered after the parsers: the error handler answers
  it without the header.
\<close>

theorem cors_counterexample:
  "sent_body (app demo_env options_request) \<noteq> NoBody \<and>
   map_of (res_headers (app demo_env bad_json_request)) ''Access-Control-Allow-Origin'' = None"
proof
  show "sent_body (app demo_env options_request) \<noteq> NoBody"
    by (simp add: app_def cors_res0 options_request_def)
  show "map_of (res_headers (app demo_env bad_json_request)) ''Access-Control-Allow-Origin''
          = None"
    by (simp add: app_def bad_json_request_def error_handler_def res_send_def res_status_def
        res0_def)
qed

section \<open>The pattern of remapped identifiers\<close>



section \<open>Bodies that are not strings\<close>

text \<open>
  Claim C10: a \<^verbatim>\<open>POST /process\<close> or \<^verbatim>\<open>POST /process-download\<close> request whose
  parsed body is truthy and not a string, such as the object \<^verbatim>\<open>{"a":1}\<close>, passes
  the emptiness check: it is never answered with status 400, the body is handed to the
  inliner as it is, and an error that the pipeline raises on it is reported with status
  500 in the shape of a processing failure.
\<close>

theorem non_string_body_processed:
  assumes "parse_failure req = None" and "req_method req = ''POST''"
    and "path req = ''/process'' \<or> path req = ''/process-download''"
    and "\<not> falsy (body req)" and "\<forall>s. body req \<noteq> JString s"
  shows "statusCode (app e req) \<noteq> 400 \<and>
         processHtml e (body req) =
           (case juice e (body req) juice_opts of
              Inl err \<Rightarrow> Inl err
            | Inr html \<Rightarrow>
                (case remapIds e (cheerio_load e html) of
                   Inl err \<Rightarrow> Inl err
                 | Inr d \<Rightarrow> Inr (cheerio_html e d))) \<and>
         (\<forall>err. processHtml e (body req) = Inl err \<longrightarrow>
            statusCode (app e req) = 500 \<and>
            sent_body (app e req) =
              Json (JObject [(''success'', JBool False),
                             (''error'', JString ''Failed to process HTML''),
                             (''message'', JString (message err))]))"
proof -
  have a: "app e req =
       (if path req = ''/process'' then post_process e req else post_process_download e req)
         \<lparr>statusCode = 200, res_headers = cors_headers, sent_body = NoBody\<rparr>"
    using assms(3) app_post_process [OF assms(1,2)] app_post_process_download [OF assms(1,2)]
    by auto
  have "statusCode (app e req) \<noteq> 400 \<and>
        (\<forall>err. processHtml e (body req) = Inl err \<longrightarrow>
            statusCode (app e req) = 500 \<and>
            sent_body (app e req) =
              Json (JObject [(''success'', JBool False),
                             (''error'', JString ''Failed to process HTML''),
                             (''message'', JString (message err))]))"
    using assms(4)
    by (cases "processHtml e (body req)")
       (simp_all add: a post_process_def post_process_download_def failure_json_def
          res_json_def res_status_def res_send_def res_header_def)
  then show ?thesis using processHtml_truthy [OF assms(4), of e] by simp
qed

theorem non_string_body_processed_witness:
  "parse_failure json_download_request = None \<and>
   req_method json_download_request = ''POST'' \<and>
   path json_download_request = ''/process-download'' \<and>
   body json_download_request = JObject [(''a'', JNumber 1)] \<and>
   \<not> falsy (body json_download_request) \<and>
   statusCode (app demo_env json_download_request) = 500 \<and>
   sent_body (app demo_env json_download_request) =
     Json (JObject [(''success'', JBool False),
                    (''error'', JString ''Failed to process HTML''),
                    (''message'', JString ''html.replace is not a function'')])"
proof -
  have h: "parse_failure json_download_request = None"
    "req_method json_download_request = ''POST''"
    "path json_download_request = ''/process'' \<or>
     path json_download_request = ''/process-download''"
    "\<not> falsy (body json_download_request)"
    "\<forall>s. body json_download_request \<noteq> JString s"
    by (simp_all add: json_download_request_def)
  have b: "body json_download_request = JObject [(''a'', JNumber 1)]"
    "path json_download_request = ''/process-download''"
    by (simp_all add: json_download_request_def)
  have p: "processHtml demo_env (body json_download_request)
             = Inl (new_Error ''html.replace is not a function'')"
    by (simp add: processHtml_def json_download_request_def demo_env_def)
  have m: "message (new_Error ''html.replace is not a function'')
             = ''html.replace is not a function''"
    by (simp add: new_Error_def)
  show ?thesis
    using h(1,2,4) b p m non_string_body_processed [OF h, of demo_env] by simp
qed

end
